theory Spec2Isabelle
  imports Complex_Main "HOL-Library.Sublist" "HOL-Library.Word"
begin

section \<open>Python strings, bytes and values\<close>

text \<open>
  A Python \<open>str\<close> is a sequence of Unicode code points, and \<open>len\<close>, slicing, \<open>replace\<close>
  and \<open>strip\<close> count code points. A string is therefore a list of code points
  (natural numbers); \<open>ascii\<close> embeds an ASCII literal. \<open>bytes\<close> is a list of octets.
\<close>

type_synonym pystr = "nat list"

type_synonym bytes = "8 word list"

definition ascii :: "string \<Rightarrow> pystr" where
  "ascii s = map of_char s"

text \<open>
  \<open>s.replace(old, new)\<close>: non-overlapping occurrences, leftmost first. With an empty
  \<open>old\<close> Python puts \<open>new\<close> before every character and at the end.
\<close>

fun py_replace :: "'a list \<Rightarrow> 'a list \<Rightarrow> 'a list \<Rightarrow> 'a list" where
  "py_replace old new [] = (if old = [] then new else [])"
| "py_replace old new (x # xs) =
     (if old = [] then new @ x # py_replace old new xs
      else if prefix old (x # xs) then new @ py_replace old new (drop (length old) (x # xs))
      else x # py_replace old new xs)"

text \<open>\<open>s.strip(chars)\<close>: drops leading and trailing characters that occur in \<open>chars\<close>.\<close>

definition py_strip :: "'a list \<Rightarrow> 'a list \<Rightarrow> 'a list" where
  "py_strip chars s =
     rev (dropWhile (\<lambda>c. c \<in> set chars) (rev (dropWhile (\<lambda>c. c \<in> set chars) s)))"

text \<open>\<open>s[:n]\<close>: a negative \<open>n\<close> counts from the end.\<close>

definition py_slice_to :: "int \<Rightarrow> 'a list \<Rightarrow> 'a list" where
  "py_slice_to n s = (if n < 0 then take (nat (int (length s) + n)) s else take (nat n) s)"

text \<open>Decimal digits of a number, and \<open>%02d\<close>-style zero padding.\<close>

fun dec_nat :: "nat \<Rightarrow> pystr" where
  "dec_nat n = (if n < 10 then [48 + n] else dec_nat (n div 10) @ [48 + n mod 10])"

declare dec_nat.simps [simp del]

definition dec_int :: "int \<Rightarrow> pystr" where
  "dec_int i = (if i < 0 then 45 # dec_nat (nat (- i)) else dec_nat (nat i))"

definition zero_pad :: "nat \<Rightarrow> pystr \<Rightarrow> pystr" where
  "zero_pad w s = replicate (w - length s) 48 @ s"

text \<open>
  The values the crawler's metadata record is built from: \<open>None\<close>, booleans, integers,
  strings, lists and dictionaries with string keys (an association list in insertion
  order; \<open>map_of\<close> is the lookup). Floats do not occur in what the endpoints read.
\<close>

datatype pyval =
    PNone
  | PBool bool
  | PInt int
  | PStr pystr
  | PList "pyval list"
  | PDict "(pystr \<times> pyval) list"

text \<open>Truth value of an object, as \<open>not x\<close> and \<open>x or y\<close> test it.\<close>

fun py_truthy :: "pyval \<Rightarrow> bool" where
  "py_truthy PNone = False"
| "py_truthy (PBool b) = b"
| "py_truthy (PInt i) = (i \<noteq> 0)"
| "py_truthy (PStr s) = (s \<noteq> [])"
| "py_truthy (PList xs) = (xs \<noteq> [])"
| "py_truthy (PDict kvs) = (kvs \<noteq> [])"

fun type_name :: "pyval \<Rightarrow> pystr" where
  "type_name PNone = ascii ''NoneType''"
| "type_name (PBool b) = ascii ''bool''"
| "type_name (PInt i) = ascii ''int''"
| "type_name (PStr s) = ascii ''str''"
| "type_name (PList xs) = ascii ''list''"
| "type_name (PDict kvs) = ascii ''dict''"

text \<open>
  Exceptions deriving from \<open>Exception\<close>, split the way the handler's \<open>except\<close> clauses
  split them: \<open>ValueError\<close> (and its subclasses) against everything else. The argument
  is \<open>str(e)\<close>.
\<close>

datatype exn = ValueError pystr | OtherException pystr

definition attribute_error :: "pyval \<Rightarrow> pystr \<Rightarrow> exn" where
  "attribute_error v attr =
     OtherException ([39] @ type_name v @ ascii '' object has no attribute '' @ [39] @ attr @ [39])"

text \<open>\<open>d.get(k, default)\<close> and \<open>d.get(k)\<close>; on anything but a dict the attribute is missing.\<close>

definition py_get_default :: "pyval \<Rightarrow> pystr \<Rightarrow> pyval \<Rightarrow> exn + pyval" where
  "py_get_default d k dflt =
     (case d of
        PDict kvs \<Rightarrow> Inr (case map_of kvs k of None \<Rightarrow> dflt | Some v \<Rightarrow> v)
      | _ \<Rightarrow> Inl (attribute_error d (ascii ''get'')))"

definition py_get :: "pyval \<Rightarrow> pystr \<Rightarrow> exn + pyval" where
  "py_get d k = py_get_default d k PNone"

fun isinstance_dict :: "pyval \<Rightarrow> bool" where
  "isinstance_dict (PDict kvs) = True"
| "isinstance_dict v = False"

text \<open>
  \<open>repr\<close> of a string: single quotes unless the string has a single quote and no double
  quote; backslash, the quote, newline, carriage return and tab are escaped, other
  control characters are written \<open>\xNN\<close>. Code points above U+00FF are taken as printable.
\<close>

definition hex_digit :: "nat \<Rightarrow> nat" where
  "hex_digit d = (if d < 10 then 48 + d else 87 + d)"

definition repr_char :: "nat \<Rightarrow> nat \<Rightarrow> pystr" where
  "repr_char q c =
     (if c = 92 then [92, 92]
      else if c = q then [92, q]
      else if c = 10 then [92, 110]
      else if c = 13 then [92, 114]
      else if c = 9 then [92, 116]
      else if c < 32 \<or> c = 127 \<or> (128 \<le> c \<and> c \<le> 160) \<or> c = 173
        then [92, 120, hex_digit (c div 16), hex_digit (c mod 16)]
      else [c])"

definition py_repr_str :: "pystr \<Rightarrow> pystr" where
  "py_repr_str s =
     (let q = (if 39 \<in> set s \<and> 34 \<notin> set s then 34 else 39)
      in q # concat (map (repr_char q) s) @ [q])"

fun join_comma :: "pystr list \<Rightarrow> pystr" where
  "join_comma [] = []"
| "join_comma [x] = x"
| "join_comma (x # y # ys) = x @ ascii '', '' @ join_comma (y # ys)"

fun py_repr :: "pyval \<Rightarrow> pystr" where
  "py_repr PNone = ascii ''None''"
| "py_repr (PBool b) = (if b then ascii ''True'' else ascii ''False'')"
| "py_repr (PInt i) = dec_int i"
| "py_repr (PStr s) = py_repr_str s"
| "py_repr (PList xs) = ascii ''['' @ join_comma (map py_repr xs) @ ascii '']''"
| "py_repr (PDict kvs) =
     ascii ''{'' @
     join_comma (map (\<lambda>kv. py_repr_str (fst kv) @ ascii '': '' @ py_repr (snd kv)) kvs) @
     ascii ''}''"

text \<open>\<open>str(v)\<close>, which is also what an f-string field \<open>{v}\<close> inserts.\<close>

fun py_str :: "pyval \<Rightarrow> pystr" where
  "py_str (PStr s) = s"
| "py_str v = py_repr v"

text \<open>
  \<open>round(x, 2)\<close> of a quotient \<open>n / 1024 / 1024\<close>. The division by a power of two is
  exact in binary floating point (for sizes below \<open>2^53\<close>), and \<open>round\<close> rounds the exact
  value to the nearest hundredth, ties to the even one; the model keeps that decimal
  value as a real number.
\<close>

definition py_round2 :: "real \<Rightarrow> real" where
  "py_round2 x =
     (let y = x * 100; f = \<lfloor>y\<rfloor>; d = y - of_int f
      in of_int (if d < 1 / 2 then f else if 1 / 2 < d then f + 1
                 else if even f then f else f + 1) / 100)"

definition size_mb :: "nat \<Rightarrow> real" where
  "size_mb n = py_round2 (of_nat n / 1024 / 1024)"

section \<open>Dates\<close>

record datetime =
  dt_year :: nat
  dt_month :: nat
  dt_day :: nat
  dt_hour :: nat
  dt_minute :: nat
  dt_second :: nat
  dt_microsecond :: nat
  dt_utcoffset :: "int option"  \<comment> \<open>minutes east of UTC; \<open>None\<close> for a naive datetime\<close>

text \<open>
  \<open>now.strftime("%Y/%m/%d")\<close>: month and day are padded to two digits. The year is
  written with its own digits, four of them from the year 1000 on; how \<open>%Y\<close> pads an
  earlier year depends on the platform, and the clock never shows one.
\<close>

definition strftime_Ymd :: "datetime \<Rightarrow> pystr" where
  "strftime_Ymd d =
     dec_nat (dt_year d) @ ascii ''/'' @ zero_pad 2 (dec_nat (dt_month d)) @ ascii ''/'' @
     zero_pad 2 (dec_nat (dt_day d))"

text \<open>\<open>d.isoformat()\<close>: \<open>YYYY-MM-DDTHH:MM:SS[.ffffff][+HH:MM]\<close>.\<close>

definition isoformat :: "datetime \<Rightarrow> pystr" where
  "isoformat d =
     zero_pad 4 (dec_nat (dt_year d)) @ ascii ''-'' @ zero_pad 2 (dec_nat (dt_month d)) @
     ascii ''-'' @ zero_pad 2 (dec_nat (dt_day d)) @ ascii ''T'' @
     zero_pad 2 (dec_nat (dt_hour d)) @ ascii '':'' @ zero_pad 2 (dec_nat (dt_minute d)) @
     ascii '':'' @ zero_pad 2 (dec_nat (dt_second d)) @
     (if dt_microsecond d = 0 then [] else ascii ''.'' @ zero_pad 6 (dec_nat (dt_microsecond d))) @
     (case dt_utcoffset d of
        None \<Rightarrow> []
      | Some off \<Rightarrow>
          (if off < 0 then ascii ''-'' else ascii ''+'') @
          zero_pad 2 (dec_nat (nat \<bar>off\<bar> div 60)) @ ascii '':'' @
          zero_pad 2 (dec_nat (nat \<bar>off\<bar> mod 60)))"

section \<open>Messages and constants of \<open>r2_upload.py\<close>\<close>

definition AUTH_TOKEN :: pystr where
  "AUTH_TOKEN = ascii ''shipit2026''"

text \<open>
  The messages of the source are Chinese; each is given by its code points, with a
  translation. \<open>msg_unauthenticated\<close>: "not authenticated: invalid Auth Token".
\<close>

definition msg_unauthenticated :: pystr where
  "msg_unauthenticated =
     [0x672A, 0x8BA4, 0x8BC1, 0xFF1A, 0x65E0, 0x6548, 0x7684] @ ascii '' Auth Token''"

text \<open>"cannot parse the video information"\<close>

definition msg_cannot_parse :: pystr where
  "msg_cannot_parse = [0x65E0, 0x6CD5, 0x89E3, 0x6790, 0x89C6, 0x9891, 0x4FE1, 0x606F]"

text \<open>"only the video type is supported at present, detected type: "\<close>

definition msg_only_video :: pystr where
  "msg_only_video =
     [0x5F53, 0x524D, 0x4EC5, 0x652F, 0x6301, 0x89C6, 0x9891, 0x7C7B, 0x578B, 0xFF0C,
      0x68C0, 0x6D4B, 0x5230, 0x7C7B, 0x578B] @ ascii '': ''"

text \<open>"cannot get the video download link"\<close>

definition msg_no_download_url :: pystr where
  "msg_no_download_url =
     [0x65E0, 0x6CD5, 0x83B7, 0x53D6, 0x89C6, 0x9891, 0x4E0B, 0x8F7D, 0x94FE, 0x63A5]"

text \<open>"video download failed"\<close>

definition msg_download_failed :: pystr where
  "msg_download_failed = [0x89C6, 0x9891, 0x4E0B, 0x8F7D, 0x5931, 0x8D25]"

text \<open>"processing failed: ", "getting the list failed: ", "generating the link failed: "\<close>

definition msg_processing_failed :: pystr where
  "msg_processing_failed = [0x5904, 0x7406, 0x5931, 0x8D25] @ ascii '': ''"

definition msg_list_failed :: pystr where
  "msg_list_failed = [0x83B7, 0x53D6, 0x5217, 0x8868, 0x5931, 0x8D25] @ ascii '': ''"

definition msg_link_failed :: pystr where
  "msg_link_failed = [0x751F, 0x6210, 0x94FE, 0x63A5, 0x5931, 0x8D25] @ ascii '': ''"

section \<open>The collaborators and what a request does to them\<close>

text \<open>
  The crawler, the HTTP client, the object store and the clock are outside the
  repository. They are the fields of an environment; an exception one of them raises
  is the \<open>Inl\<close> of its result. A storage operation stands for \<open>get_r2_client()\<close>
  followed by the SDK call, and \<open>http_get\<close> for \<open>client.get\<close> followed by
  \<open>raise_for_status()\<close> and \<open>response.content\<close>. Every call a handler makes is recorded,
  in order, as an event.
\<close>

record s3_object =
  obj_Key :: pystr
  obj_Size :: nat
  obj_LastModified :: datetime

record env =
  crawler :: "pystr \<Rightarrow> exn + pyval"
  http_get :: "pyval \<Rightarrow> (pystr \<times> pystr) list \<Rightarrow> exn + bytes"
  put_object :: "pyval \<Rightarrow> pystr \<Rightarrow> bytes \<Rightarrow> pystr \<Rightarrow> exn + unit"
  list_objects_v2 :: "pyval \<Rightarrow> pystr \<Rightarrow> int \<Rightarrow> exn + s3_object list option"
  presign_get_object :: "pyval \<Rightarrow> pystr \<Rightarrow> int \<Rightarrow> exn + pystr"
  now :: datetime
  r2_config :: "(pystr \<times> pyval) list"

datatype event =
    CrawlerCall pystr
  | HttpGet pyval "(pystr \<times> pystr) list"
  | PutObject pyval pystr bytes pystr
  | ListObjectsV2 pyval pystr int
  | PresignGetObject pyval pystr int

text \<open>
  What FastAPI sends back for a failed request: the handler's \<open>HTTPException\<close> with its
  status and detail, or the framework's own rejection (status 422) of a request that
  lacks a parameter declared as required.
\<close>

datatype http_failure = HTTPException nat pystr | RequestValidationError

fun status_code :: "http_failure \<Rightarrow> nat" where
  "status_code (HTTPException c d) = c"
| "status_code RequestValidationError = 422"

record 'a response_model =
  rm_code :: nat
  rm_router :: pystr
  rm_data :: 'a

section \<open>Helpers of \<open>r2_upload.py\<close>\<close>

text \<open>\<open>verify_auth\<close>: the header is optional here (default \<open>None\<close>).\<close>

definition verify_auth :: "pystr option \<Rightarrow> http_failure + pystr option" where
  "verify_auth auth =
     (if auth \<noteq> Some AUTH_TOKEN then Inl (HTTPException 401 msg_unauthenticated)
      else Inr auth)"

definition default_headers :: "(pystr \<times> pystr) list" where
  "default_headers =
     [(ascii ''User-Agent'',
       ascii ''Mozilla/5.0 (Windows NT 10.0; Win64; x64) AppleWebKit/537.36 (KHTML, like Gecko) Chrome/130.0.0.0 Safari/537.36''),
      (ascii ''Referer'', ascii ''https://www.douyin.com/'')]"

text \<open>\<open>download_video(url)\<close>, called without extra headers.\<close>

definition download_video :: "env \<Rightarrow> pyval \<Rightarrow> (exn + bytes) \<times> event list" where
  "download_video e url = (http_get e url default_headers, [HttpGet url default_headers])"

definition bucket_name :: "env \<Rightarrow> pyval" where
  "bucket_name e =
     (case map_of (r2_config e) (ascii ''bucket_name'') of
        None \<Rightarrow> PStr (ascii ''douyin-videos'')
      | Some v \<Rightarrow> v)"

text \<open>\<open>upload_to_r2(file_content, object_key)\<close>, content type \<open>video/mp4\<close>.\<close>

definition upload_to_r2 :: "env \<Rightarrow> bytes \<Rightarrow> pystr \<Rightarrow> (exn + pystr) \<times> event list" where
  "upload_to_r2 e file_content object_key =
     ((case put_object e (bucket_name e) object_key file_content (ascii ''video/mp4'') of
         Inl x \<Rightarrow> Inl x
       | Inr u \<Rightarrow> Inr object_key),
      [PutObject (bucket_name e) object_key file_content (ascii ''video/mp4'')])"

definition generate_presigned_url :: "env \<Rightarrow> pystr \<Rightarrow> int \<Rightarrow> (exn + pystr) \<times> event list" where
  "generate_presigned_url e object_key expires_in =
     (presign_get_object e (bucket_name e) object_key expires_in,
      [PresignGetObject (bucket_name e) object_key expires_in])"

subsection \<open>\<open>sanitize_filename\<close>\<close>

text \<open>The unsafe characters: \<open>/ \ : * ? " < > |\<close>, newline, carriage return, \<open>#\<close>, \<open>@\<close>.\<close>

definition unsafe_codes :: "nat list" where
  "unsafe_codes = [47, 92, 58, 42, 63, 34, 60, 62, 124, 10, 13, 35, 64]"

definition unsafe_chars :: "pystr list" where
  "unsafe_chars = map (\<lambda>c. [c]) unsafe_codes"

lemma py_replace_length_le:
  "old \<noteq> [] \<Longrightarrow> length new \<le> length old \<Longrightarrow>
     length (py_replace old new t) \<le> length t"
proof (induction old new t rule: py_replace.induct)
  case (1 old new)
  then show ?case by simp
next
  case (2 old new x xs)
  show ?case
  proof (cases "prefix old (x # xs)")
    case True
    then have "length old \<le> length (x # xs)" by (rule prefix_length_le)
    moreover have "length (py_replace old new (drop (length old) (x # xs)))
        \<le> length (drop (length old) (x # xs))"
      using 2 True by simp
    ultimately show ?thesis using 2(4,5) True by simp
  next
    case False
    with 2 show ?thesis by simp
  qed
qed

lemma py_replace_length_less:
  "sublist old t \<Longrightarrow> length new < length old \<Longrightarrow>
     length (py_replace old new t) < length t"
proof (induction old new t rule: py_replace.induct)
  case (1 old new)
  then show ?case by simp
next
  case (2 old new x xs)
  have ne: "old \<noteq> []" using 2(5) by auto
  show ?case
  proof (cases "prefix old (x # xs)")
    case True
    then have "length old \<le> length (x # xs)" by (rule prefix_length_le)
    moreover have "length (py_replace old new (drop (length old) (x # xs)))
        \<le> length (drop (length old) (x # xs))"
      using ne 2(5) by (intro py_replace_length_le) simp_all
    ultimately show ?thesis using 2(5) ne True by simp
  next
    case False
    with 2(4) have "sublist old xs" by (simp add: sublist_Cons_right)
    with 2 False ne show ?thesis by simp
  qed
qed

text \<open>
  The loop \<open>while "__" in safe_desc: safe_desc = safe_desc.replace("__", "_")\<close>. Every
  round shortens the string, so the loop ends.
\<close>

function collapse_underscores :: "pystr \<Rightarrow> pystr" where
  "collapse_underscores s =
     (if sublist (ascii ''__'') s
      then collapse_underscores (py_replace (ascii ''__'') (ascii ''_'') s)
      else s)"
  by pat_completeness auto
termination
  by (relation "measure length") (simp_all add: py_replace_length_less ascii_def)

declare collapse_underscores.simps [simp del]

definition sanitize_filename :: "pystr \<Rightarrow> int \<Rightarrow> pystr" where
  "sanitize_filename desc max_length =
     (if desc = [] then ascii ''video''
      else
        let safe_desc = fold (\<lambda>char s. py_replace char (ascii ''_'') s) unsafe_chars desc;
            safe_desc = collapse_underscores safe_desc;
            safe_desc = py_strip (ascii ''_ '') safe_desc;
            safe_desc = (if int (length safe_desc) > max_length
                         then py_slice_to max_length safe_desc else safe_desc)
        in if safe_desc \<noteq> [] then safe_desc else ascii ''video'')"

section \<open>\<open>POST /parse_and_upload\<close>\<close>

record ParseAndUploadRequest =
  body_url :: pystr
  body_quality :: pystr

record video_info =
  vi_video_id :: pyval
  vi_desc :: pyval
  vi_platform :: pyval
  vi_type :: pyval
  vi_create_time :: pyval
  vi_author :: pyval
  vi_statistics :: pyval
  vi_cover :: pyval

record r2_storage =
  r2_bucket :: pyval
  r2_path :: pystr
  r2_file_size :: nat
  r2_file_size_mb :: real

record upload_result =
  res_video_info :: video_info
  res_r2_storage :: r2_storage
  res_quality :: pystr

definition bind_exn :: "exn + 'a \<Rightarrow> ('a \<Rightarrow> exn + 'b) \<Rightarrow> exn + 'b" where
  "bind_exn m f = (case m of Inl x \<Rightarrow> Inl x | Inr v \<Rightarrow> f v)"

text \<open>\<open>d.get(k1) or d.get(k2)\<close>: the second lookup happens only when the first is falsy.\<close>

definition py_get_or :: "pyval \<Rightarrow> pystr \<Rightarrow> pystr \<Rightarrow> exn + pyval" where
  "py_get_or d k1 k2 =
     bind_exn (py_get d k1) (\<lambda>a. if py_truthy a then Inr a else py_get d k2)"

text \<open>Step 2 of the handler: the download link for the requested quality.\<close>

definition select_download_url :: "pystr \<Rightarrow> pyval \<Rightarrow> exn + pyval" where
  "select_download_url quality video_urls =
     (if quality = ascii ''high''
        then py_get_or video_urls (ascii ''nwm_video_url_HQ'') (ascii ''nwm_video_url'')
      else if quality = ascii ''low''
        then py_get_or video_urls (ascii ''nwm_video_url'') (ascii ''nwm_video_url_HQ'')
      else py_get_or video_urls (ascii ''wm_video_url_HQ'') (ascii ''wm_video_url''))"

text \<open>
  The checks between the crawler's answer and the download: the answer is truthy, its
  type is \<open>video\<close>, and the chosen link is truthy.
\<close>

definition resolve_download_url :: "pyval \<Rightarrow> pystr \<Rightarrow> exn + pyval" where
  "resolve_download_url video_data quality =
     (if \<not> py_truthy video_data then Inl (ValueError msg_cannot_parse)
      else
        bind_exn (py_get video_data (ascii ''type'')) (\<lambda>ty.
          if ty \<noteq> PStr (ascii ''video'') then Inl (ValueError (msg_only_video @ py_str ty))
          else
            bind_exn (py_get_default video_data (ascii ''video_data'') (PDict [])) (\<lambda>video_urls.
              bind_exn (select_download_url quality video_urls) (\<lambda>download_url.
                if \<not> py_truthy download_url then Inl (ValueError msg_no_download_url)
                else Inr download_url))))"

text \<open>Step 4: \<open>douyin/{date_path}/{video_id}.mp4\<close>.\<close>

definition object_key_for :: "datetime \<Rightarrow> pyval \<Rightarrow> pystr" where
  "object_key_for d video_id =
     (let date_path = strftime_Ymd d;
          filename = py_str video_id @ ascii ''.mp4''
      in ascii ''douyin/'' @ date_path @ ascii ''/'' @ filename)"

text \<open>Step 6: the \<open>video_info\<close> part of the result, field by field in the source's order.\<close>

definition build_video_info :: "pyval \<Rightarrow> pyval \<Rightarrow> pyval \<Rightarrow> exn + video_info" where
  "build_video_info video_data video_id desc =
     bind_exn (py_get video_data (ascii ''platform'')) (\<lambda>platform.
     bind_exn (py_get video_data (ascii ''type'')) (\<lambda>ty.
     bind_exn (py_get video_data (ascii ''create_time'')) (\<lambda>create_time.
     bind_exn (py_get video_data (ascii ''author'')) (\<lambda>author_obj.
     bind_exn (if isinstance_dict author_obj
               then bind_exn (py_get_default video_data (ascii ''author'') (PDict []))
                      (\<lambda>a. py_get a (ascii ''nickname''))
               else Inr PNone) (\<lambda>author.
     bind_exn (py_get video_data (ascii ''statistics'')) (\<lambda>statistics.
     bind_exn (py_get_default video_data (ascii ''cover_data'') (PDict [])) (\<lambda>cover_data.
     bind_exn (py_get cover_data (ascii ''cover'')) (\<lambda>cover.
       Inr \<lparr>vi_video_id = video_id, vi_desc = desc, vi_platform = platform, vi_type = ty,
            vi_create_time = create_time, vi_author = author, vi_statistics = statistics,
            vi_cover = cover\<rparr>))))))))"

definition build_result ::
  "env \<Rightarrow> pyval \<Rightarrow> pyval \<Rightarrow> pyval \<Rightarrow> pystr \<Rightarrow> bytes \<Rightarrow> pystr \<Rightarrow> exn + upload_result" where
  "build_result e video_data video_id desc object_key video_content quality =
     bind_exn (build_video_info video_data video_id desc) (\<lambda>info.
       Inr \<lparr>res_video_info = info,
            res_r2_storage =
              \<lparr>r2_bucket = (case map_of (r2_config e) (ascii ''bucket_name'') of
                              None \<Rightarrow> PNone | Some v \<Rightarrow> v),
               r2_path = object_key,
               r2_file_size = length video_content,
               r2_file_size_mb = size_mb (length video_content)\<rparr>,
            res_quality = quality\<rparr>)"

text \<open>Steps 3 to 6, once the download link is known.\<close>

definition download_and_upload ::
  "env \<Rightarrow> pyval \<Rightarrow> pystr \<Rightarrow> pyval \<Rightarrow> (exn + upload_result) \<times> event list" where
  "download_and_upload e video_data quality download_url =
     (case download_video e download_url of
        (Inl x, t1) \<Rightarrow> (Inl x, t1)
      | (Inr video_content, t1) \<Rightarrow>
          if video_content = [] then (Inl (ValueError msg_download_failed), t1)
          else
            (case bind_exn (py_get_default video_data (ascii ''video_id'') (PStr (ascii ''unknown'')))
                    (\<lambda>video_id. bind_exn (py_get_default video_data (ascii ''desc'') (PStr []))
                    (\<lambda>desc. Inr (video_id, desc))) of
               Inl x \<Rightarrow> (Inl x, t1)
             | Inr (video_id, desc) \<Rightarrow>
                 let object_key = object_key_for (now e) video_id in
                 (case upload_to_r2 e video_content object_key of
                    (Inl x, t2) \<Rightarrow> (Inl x, t1 @ t2)
                  | (Inr k, t2) \<Rightarrow>
                      (build_result e video_data video_id desc object_key video_content quality,
                       t1 @ t2))))"

text \<open>The body of the \<open>try\<close> block.\<close>

definition parse_and_upload_try ::
  "env \<Rightarrow> pystr \<Rightarrow> ParseAndUploadRequest \<Rightarrow>
     (exn + upload_result response_model) \<times> event list" where
  "parse_and_upload_try e url_path body =
     (case crawler e (body_url body) of
        Inl x \<Rightarrow> (Inl x, [CrawlerCall (body_url body)])
      | Inr video_data \<Rightarrow>
          (case resolve_download_url video_data (body_quality body) of
             Inl x \<Rightarrow> (Inl x, [CrawlerCall (body_url body)])
           | Inr download_url \<Rightarrow>
               (case download_and_upload e video_data (body_quality body) download_url of
                  (Inl x, t) \<Rightarrow> (Inl x, CrawlerCall (body_url body) # t)
                | (Inr result, t) \<Rightarrow>
                    (Inr \<lparr>rm_code = 200, rm_router = url_path, rm_data = result\<rparr>,
                     CrawlerCall (body_url body) # t))))"

text \<open>
  The handler: the token check, then the \<open>try\<close> block with its two \<open>except\<close> clauses.
  The \<open>ErrorResponseModel\<close> built in each clause is dropped by the source.
\<close>

definition parse_and_upload_to_r2 ::
  "env \<Rightarrow> pystr \<Rightarrow> ParseAndUploadRequest \<Rightarrow> pystr \<Rightarrow>
     (http_failure + upload_result response_model) \<times> event list" where
  "parse_and_upload_to_r2 e url_path body auth =
     (if auth \<noteq> AUTH_TOKEN then (Inl (HTTPException 401 msg_unauthenticated), [])
      else
        (case parse_and_upload_try e url_path body of
           (Inl (ValueError m), t) \<Rightarrow> (Inl (HTTPException 400 m), t)
         | (Inl (OtherException m), t) \<Rightarrow> (Inl (HTTPException 500 (msg_processing_failed @ m)), t)
         | (Inr r, t) \<Rightarrow> (Inr r, t)))"



section \<open>\<open>GET /list_videos\<close> and \<open>GET /get_download_url\<close>\<close>

record video_entry =
  ve_key :: pystr
  ve_size :: nat
  ve_size_mb :: real
  ve_last_modified :: pystr

record list_result =
  lr_count :: nat
  lr_videos :: "video_entry list"

definition video_entry_of :: "s3_object \<Rightarrow> video_entry" where
  "video_entry_of obj =
     \<lparr>ve_key = obj_Key obj, ve_size = obj_Size obj, ve_size_mb = size_mb (obj_Size obj),
      ve_last_modified = isoformat (obj_LastModified obj)\<rparr>"

text \<open>The loop \<open>for obj in response.get("Contents", []): videos.append({...})\<close>.\<close>

fun append_videos :: "video_entry list \<Rightarrow> s3_object list \<Rightarrow> video_entry list" where
  "append_videos videos [] = videos"
| "append_videos videos (obj # objs) = append_videos (videos @ [video_entry_of obj]) objs"

definition list_r2_videos ::
  "env \<Rightarrow> pystr \<Rightarrow> pystr \<Rightarrow> int \<Rightarrow> (http_failure + list_result response_model) \<times> event list" where
  "list_r2_videos e url_path prefix_arg max_keys =
     (case list_objects_v2 e (bucket_name e) prefix_arg max_keys of
        Inl x \<Rightarrow>
          (Inl (HTTPException 500
                 (msg_list_failed @ (case x of ValueError m \<Rightarrow> m | OtherException m \<Rightarrow> m))),
           [ListObjectsV2 (bucket_name e) prefix_arg max_keys])
      | Inr response \<Rightarrow>
          (let videos = append_videos [] (case response of None \<Rightarrow> [] | Some objs \<Rightarrow> objs)
           in (Inr \<lparr>rm_code = 200, rm_router = url_path,
                    rm_data = \<lparr>lr_count = length videos, lr_videos = videos\<rparr>\<rparr>,
               [ListObjectsV2 (bucket_name e) prefix_arg max_keys])))"

record download_url_result =
  du_path :: pystr
  du_download_url :: pystr
  du_expires_in :: int

definition get_video_download_url ::
  "env \<Rightarrow> pystr \<Rightarrow> pystr \<Rightarrow> int \<Rightarrow>
     (http_failure + download_url_result response_model) \<times> event list" where
  "get_video_download_url e url_path path_arg expires_in =
     (case generate_presigned_url e path_arg expires_in of
        (Inl x, t) \<Rightarrow>
          (Inl (HTTPException 500
                 (msg_link_failed @ (case x of ValueError m \<Rightarrow> m | OtherException m \<Rightarrow> m))), t)
      | (Inr presigned_url, t) \<Rightarrow>
          (Inr \<lparr>rm_code = 200, rm_router = url_path,
                rm_data = \<lparr>du_path = path_arg, du_download_url = presigned_url,
                           du_expires_in = expires_in\<rparr>\<rparr>, t))"

text \<open>
  The two routes as FastAPI serves them: neither declares an \<open>Auth\<close> parameter, so the
  header of the request reaches no code. \<open>prefix\<close>, \<open>max_keys\<close> and \<open>expires_in\<close> have
  defaults; \<open>path\<close> has none and is required.
\<close>

record list_http_request =
  lq_auth :: "pystr option"
  lq_url_path :: pystr
  lq_prefix :: "pystr option"
  lq_max_keys :: "int option"

definition get_list_videos ::
  "env \<Rightarrow> list_http_request \<Rightarrow> (http_failure + list_result response_model) \<times> event list" where
  "get_list_videos e rq =
     list_r2_videos e (lq_url_path rq)
       (case lq_prefix rq of None \<Rightarrow> ascii ''douyin/'' | Some p \<Rightarrow> p)
       (case lq_max_keys rq of None \<Rightarrow> 100 | Some k \<Rightarrow> k)"

record download_url_http_request =
  dq_auth :: "pystr option"
  dq_url_path :: pystr
  dq_path :: "pystr option"
  dq_expires_in :: "int option"

definition get_get_download_url ::
  "env \<Rightarrow> download_url_http_request \<Rightarrow>
     (http_failure + download_url_result response_model) \<times> event list" where
  "get_get_download_url e rq =
     (case dq_path rq of
        None \<Rightarrow> (Inl RequestValidationError, [])
      | Some p \<Rightarrow>
          get_video_download_url e (dq_url_path rq) p
            (case dq_expires_in rq of None \<Rightarrow> 3600 | Some x \<Rightarrow> x))"

section \<open>The quality policy in the words of the specification\<close>

text \<open>
  The documented qualities, and for each the preference chain of section 4.2: a link is
  present under a key when the key holds a truthy value (a missing key, \<open>None\<close> and the
  empty string are no link).
\<close>

datatype quality = High | Low | Watermark

fun quality_name :: "quality \<Rightarrow> pystr" where
  "quality_name High = ascii ''high''"
| "quality_name Low = ascii ''low''"
| "quality_name Watermark = ascii ''watermark''"

definition url_at :: "(pystr \<times> pyval) list \<Rightarrow> pystr \<Rightarrow> pyval option" where
  "url_at urls k =
     (case map_of urls k of None \<Rightarrow> None | Some v \<Rightarrow> if py_truthy v then Some v else None)"

definition first_present :: "pyval option \<Rightarrow> pyval option \<Rightarrow> pyval option" where
  "first_present a b = (case a of Some u \<Rightarrow> Some u | None \<Rightarrow> b)"

fun preferred_url :: "quality \<Rightarrow> (pystr \<times> pyval) list \<Rightarrow> pyval option" where
  "preferred_url High urls =
     first_present (url_at urls (ascii ''nwm_video_url_HQ'')) (url_at urls (ascii ''nwm_video_url''))"
| "preferred_url Low urls =
     first_present (url_at urls (ascii ''nwm_video_url'')) (url_at urls (ascii ''nwm_video_url_HQ''))"
| "preferred_url Watermark urls =
     first_present (url_at urls (ascii ''wm_video_url_HQ'')) (url_at urls (ascii ''wm_video_url''))"

text \<open>The links a run has downloaded.\<close>

definition downloads :: "event list \<Rightarrow> pyval list" where
  "downloads t = [u. HttpGet u h \<leftarrow> t]"

text \<open>
  The storage key in the words of the specification, \<open>douyin/{yyyy}/{mm}/{dd}/{video_id}.mp4\<close>,
  with a four-digit year and two-digit month and day.
\<close>

definition digits2 :: "nat \<Rightarrow> pystr" where
  "digits2 n = [48 + n div 10, 48 + n mod 10]"

definition digits4 :: "nat \<Rightarrow> pystr" where
  "digits4 n = [48 + n div 1000, 48 + n div 100 mod 10, 48 + n div 10 mod 10, 48 + n mod 10]"

definition spec_storage_key :: "nat \<Rightarrow> nat \<Rightarrow> nat \<Rightarrow> pystr \<Rightarrow> pystr" where
  "spec_storage_key yyyy mm dd video_id =
     ascii ''douyin/'' @ digits4 yyyy @ ascii ''/'' @ digits2 mm @ ascii ''/'' @ digits2 dd @
     ascii ''/'' @ video_id @ ascii ''.mp4''"


definition put_keys :: "event list \<Rightarrow> pystr list" where
  "put_keys t = [k. PutObject b k c ct \<leftarrow> t]"

definition failure_status :: "http_failure + 'a \<Rightarrow> nat option" where
  "failure_status res = (case res of Inl f \<Rightarrow> Some (status_code f) | Inr r \<Rightarrow> None)"



definition requested_prefix :: "list_http_request \<Rightarrow> pystr" where
  "requested_prefix rq = (case lq_prefix rq of None \<Rightarrow> ascii ''douyin/'' | Some p \<Rightarrow> p)"

definition requested_max_keys :: "list_http_request \<Rightarrow> int" where
  "requested_max_keys rq = (case lq_max_keys rq of None \<Rightarrow> 100 | Some k \<Rightarrow> k)"


section \<open>Test doubles\<close>

text \<open>
  A crawler that answers every URL with the given record, an HTTP client that returns
  three bytes, a store that accepts every object and lists at most \<open>MaxKeys\<close> of two
  objects, and a clock that shows 2026-01-04.
\<close>

definition example_video_data :: "pystr \<Rightarrow> (pystr \<times> pyval) list \<Rightarrow> pyval" where
  "example_video_data desc urls =
     PDict [(ascii ''type'', PStr (ascii ''video'')),
            (ascii ''platform'', PStr (ascii ''douyin'')),
            (ascii ''video_id'', PStr (ascii ''123'')),
            (ascii ''desc'', PStr desc),
            (ascii ''video_data'', PDict urls)]"

definition example_urls :: "(pystr \<times> pyval) list" where
  "example_urls = [(ascii ''nwm_video_url'', PStr (ascii ''https://cdn.example/std.mp4''))]"

definition example_now :: datetime where
  "example_now =
     \<lparr>dt_year = 2026, dt_month = 1, dt_day = 4, dt_hour = 9, dt_minute = 30, dt_second = 0,
      dt_microsecond = 0, dt_utcoffset = None\<rparr>"

definition example_objects :: "s3_object list" where
  "example_objects =
     [\<lparr>obj_Key = ascii ''douyin/2026/01/04/123.mp4'', obj_Size = 131072,
       obj_LastModified = example_now\<lparr>dt_utcoffset := Some 0\<rparr>\<rparr>,
      \<lparr>obj_Key = ascii ''douyin/2026/01/04/456.mp4'', obj_Size = 3,
       obj_LastModified = example_now\<lparr>dt_utcoffset := Some 0\<rparr>\<rparr>]"

definition example_env :: "pyval \<Rightarrow> env" where
  "example_env answer =
     \<lparr>crawler = (\<lambda>u. Inr answer),
      http_get = (\<lambda>u h. Inr [1, 2, 3]),
      put_object = (\<lambda>b k c ct. Inr ()),
      list_objects_v2 = (\<lambda>b p k. if k < 0 then Inl (OtherException (ascii ''InvalidArgument''))
                                  else Inr (Some (take (nat k) example_objects))),
      presign_get_object = (\<lambda>b k x. Inr (ascii ''https://r2.example/'' @ k)),
      now = example_now,
      r2_config = [(ascii ''bucket_name'', PStr (ascii ''douyin-videos''))]\<rparr>"

definition example_body :: "pystr \<Rightarrow> ParseAndUploadRequest" where
  "example_body quality =
     \<lparr>body_url = ascii ''https://v.douyin.com/L4FJNR3/'', body_quality = quality\<rparr>"


definition list_request :: "pystr option \<Rightarrow> int option \<Rightarrow> list_http_request" where
  "list_request auth max_keys =
     \<lparr>lq_auth = auth, lq_url_path = ascii ''/r2/list_videos'', lq_prefix = None,
      lq_max_keys = max_keys\<rparr>"

definition download_url_request :: "pystr option \<Rightarrow> download_url_http_request" where
  "download_url_request auth =
     \<lparr>dq_auth = auth, dq_url_path = ascii ''/r2/get_download_url'',
      dq_path = Some (ascii ''douyin/2026/01/04/123.mp4''), dq_expires_in = None\<rparr>"


section \<open>Properties of the string helpers\<close>

lemma ascii_eq_iff [simp]: "ascii s = ascii t \<longleftrightarrow> s = t"
  by (simp add: ascii_def inj_map_eq_map inj_def)

lemma ascii_Nil [simp]: "ascii [] = []"
  by (simp add: ascii_def)

lemma ascii_eq_Nil_iff [simp]: "ascii s = [] \<longleftrightarrow> s = []"
  by (simp add: ascii_def)

lemma py_replace_set_subset:
  "old \<noteq> [] \<Longrightarrow> set (py_replace old new s) \<subseteq> set s \<union> set new"
proof (induction old new s rule: py_replace.induct)
  case (1 old new)
  then show ?case by simp
next
  case (2 old new x xs)
  have "set (drop (length old) (x # xs)) \<subseteq> set (x # xs)" by (rule set_drop_subset)
  with 2 show ?case by (cases "prefix old (x # xs)") auto
qed

lemma py_replace_single_removes:
  "c \<notin> set new \<Longrightarrow> c \<notin> set (py_replace [c] new s)"
  by (induction s) auto

lemma py_replace_keeps_absent:
  "old \<noteq> [] \<Longrightarrow> c \<notin> set s \<Longrightarrow> c \<notin> set new \<Longrightarrow> c \<notin> set (py_replace old new s)"
  using py_replace_set_subset[of old new s] by auto

lemma fold_replace_removes:
  "\<forall>c \<in> set cs. c \<notin> set new \<Longrightarrow> c \<in> set cs \<Longrightarrow>
     c \<notin> set (fold (\<lambda>char s. py_replace char new s) (map (\<lambda>c. [c]) cs) s)"
proof (induction cs arbitrary: c rule: rev_induct)
  case Nil
  then show ?case by simp
next
  case (snoc d ds)
  show ?case
  proof (cases "c = d")
    case True
    with snoc.prems show ?thesis by (simp add: py_replace_single_removes)
  next
    case False
    with snoc.prems have "c \<in> set ds" by simp
    with snoc have "c \<notin> set (fold (\<lambda>char s. py_replace char new s) (map (\<lambda>c. [c]) ds) s)"
      by simp
    moreover have "c \<notin> set new" using snoc.prems by auto
    ultimately show ?thesis by (simp add: py_replace_keeps_absent)
  qed
qed

lemma collapse_underscores_no_double:
  "\<not> sublist (ascii ''__'') (collapse_underscores s)"
proof (induction s rule: collapse_underscores.induct)
  case (1 s)
  then show ?case by (subst collapse_underscores.simps) simp
qed

lemma collapse_underscores_set:
  "set (collapse_underscores s) \<subseteq> set s \<union> {95}"
proof (induction s rule: collapse_underscores.induct)
  case (1 s)
  show ?case
  proof (cases "sublist (ascii ''__'') s")
    case True
    have "set (py_replace (ascii ''__'') (ascii ''_'') s) \<subseteq> set s \<union> {95}"
      using py_replace_set_subset[of "ascii ''__''" "ascii ''_''" s] by (simp add: ascii_def)
    with 1 True show ?thesis by (subst collapse_underscores.simps) auto
  next
    case False
    then show ?thesis by (subst collapse_underscores.simps) auto
  qed
qed

lemma py_strip_sublist: "sublist (py_strip chars s) s"
proof -
  let ?P = "\<lambda>c. c \<in> set chars"
  have "suffix (dropWhile ?P (rev (dropWhile ?P s))) (rev (dropWhile ?P s))"
    by (rule suffix_dropWhile)
  then have "prefix (py_strip chars s) (dropWhile ?P s)"
    unfolding py_strip_def by (metis rev_rev_ident suffix_to_prefix)
  moreover have "suffix (dropWhile ?P s) s" by (rule suffix_dropWhile)
  ultimately show ?thesis
    by (meson prefix_imp_sublist suffix_imp_sublist sublist_order.order_trans)
qed

lemma py_slice_to_prefix: "prefix (py_slice_to n s) s"
  by (simp add: py_slice_to_def take_is_prefix)

lemma sanitize_filename_body_sublist:
  "sanitize_filename desc m = ascii ''video'' \<or>
   sublist (sanitize_filename desc m)
     (collapse_underscores (fold (\<lambda>char s. py_replace char (ascii ''_'') s) unsafe_chars desc))"
proof -
  let ?c = "collapse_underscores (fold (\<lambda>char s. py_replace char (ascii ''_'') s) unsafe_chars desc)"
  have a: "sublist (py_strip (ascii ''_ '') ?c) ?c" by (rule py_strip_sublist)
  have "sublist (py_slice_to m (py_strip (ascii ''_ '') ?c)) (py_strip (ascii ''_ '') ?c)"
    by (rule prefix_imp_sublist[OF py_slice_to_prefix])
  with a have b: "sublist (py_slice_to m (py_strip (ascii ''_ '') ?c)) ?c"
    by (rule sublist_order.order_trans[rotated])
  from a b show ?thesis
    by (simp add: sanitize_filename_def Let_def)
qed

lemma sanitize_filename_no_unsafe:
  assumes "c \<in> set unsafe_codes"
  shows "c \<notin> set (sanitize_filename desc m)"
proof -
  let ?f = "fold (\<lambda>char s. py_replace char (ascii ''_'') s) unsafe_chars desc"
  have uc: "unsafe_chars = map (\<lambda>c. [c]) unsafe_codes"
    by (simp add: unsafe_chars_def)
  have "\<forall>c \<in> set unsafe_codes. c \<notin> set (ascii ''_'')"
    by (simp add: unsafe_codes_def ascii_def)
  then have "c \<notin> set ?f"
    unfolding uc using assms by (rule fold_replace_removes)
  moreover have "c \<noteq> 95" using assms by (auto simp: unsafe_codes_def)
  ultimately have "c \<notin> set (collapse_underscores ?f)"
    using collapse_underscores_set[of ?f] by auto
  moreover have "c \<notin> set (ascii ''video'')"
    using assms by (auto simp: unsafe_codes_def ascii_def)
  ultimately show ?thesis
    using sanitize_filename_body_sublist[of desc m] by (auto dest: set_mono_sublist)
qed

lemma sanitize_filename_no_double_underscore:
  "\<not> sublist (ascii ''__'') (sanitize_filename desc m)"
proof
  assume s: "sublist (ascii ''__'') (sanitize_filename desc m)"
  have nv: "\<not> sublist (ascii ''__'') (ascii ''video'')"
    by (simp add: ascii_def sublist_code)
  from sanitize_filename_body_sublist[of desc m] s nv
  have "sublist (ascii ''__'')
     (collapse_underscores (fold (\<lambda>char s. py_replace char (ascii ''_'') s) unsafe_chars desc))"
    by (auto intro: sublist_order.order_trans)
  then show False by (simp add: collapse_underscores_no_double)
qed

lemma sanitize_filename_nonempty: "sanitize_filename desc m \<noteq> []"
  by (simp add: sanitize_filename_def Let_def ascii_def)

lemma sanitize_filename_length:
  "0 \<le> m \<Longrightarrow> sanitize_filename desc m = ascii ''video'' \<or> int (length (sanitize_filename desc m)) \<le> m"
  by (auto simp: sanitize_filename_def Let_def py_slice_to_def)


section \<open>What a successful upload has done\<close>

lemma bind_exn_Inr_iff:
  "bind_exn m f = Inr y \<longleftrightarrow> (\<exists>v. m = Inr v \<and> f v = Inr y)"
  by (cases m) (simp_all add: bind_exn_def)

lemma build_result_storage:
  assumes "build_result e video_data video_id desc object_key video_content quality = Inr res"
  shows "r2_path (res_r2_storage res) = object_key"
    and "r2_file_size (res_r2_storage res) = length video_content"
    and "r2_file_size_mb (res_r2_storage res) = size_mb (length video_content)"
    and "vi_video_id (res_video_info res) = video_id"
    and "vi_desc (res_video_info res) = desc"
    and "res_quality res = quality"
  using assms
  by (auto simp: build_result_def build_video_info_def bind_exn_Inr_iff)

lemma download_and_upload_success:
  assumes "download_and_upload e video_data quality download_url = (Inr res, t)"
  obtains video_content video_id desc where
    "http_get e download_url default_headers = Inr video_content"
    "video_content \<noteq> []"
    "py_get_default video_data (ascii ''video_id'') (PStr (ascii ''unknown'')) = Inr video_id"
    "py_get_default video_data (ascii ''desc'') (PStr []) = Inr desc"
    "put_object e (bucket_name e) (object_key_for (now e) video_id) video_content
       (ascii ''video/mp4'') = Inr ()"
    "build_result e video_data video_id desc (object_key_for (now e) video_id) video_content
       quality = Inr res"
    "t = [HttpGet download_url default_headers,
          PutObject (bucket_name e) (object_key_for (now e) video_id) video_content
            (ascii ''video/mp4'')]"
  using assms
  by (auto simp: download_and_upload_def download_video_def upload_to_r2_def Let_def
        bind_exn_def split: sum.splits if_splits prod.splits)

lemma parse_and_upload_try_success:
  assumes "parse_and_upload_try e url_path body = (Inr r, t)"
  obtains video_data download_url t' where
    "crawler e (body_url body) = Inr video_data"
    "resolve_download_url video_data (body_quality body) = Inr download_url"
    "download_and_upload e video_data (body_quality body) download_url = (Inr (rm_data r), t')"
    "t = CrawlerCall (body_url body) # t'"
    "rm_code r = 200" "rm_router r = url_path"
  using assms
  by (auto simp: parse_and_upload_try_def split: sum.splits prod.splits)

lemma parse_and_upload_to_r2_success:
  assumes "parse_and_upload_to_r2 e url_path body auth = (Inr r, t)"
  shows "auth = AUTH_TOKEN \<and> parse_and_upload_try e url_path body = (Inr r, t)"
  using assms
  by (auto simp: parse_and_upload_to_r2_def split: if_splits sum.splits prod.splits exn.splits)

lemma parse_and_upload_key_from_id:
  assumes "parse_and_upload_to_r2 e url_path body auth = (Inr r, t)"
  shows "r2_path (res_r2_storage (rm_data r)) =
           object_key_for (now e) (vi_video_id (res_video_info (rm_data r)))"
    and "[k. PutObject b k c ct \<leftarrow> t] =
           [object_key_for (now e) (vi_video_id (res_video_info (rm_data r)))]"
proof -
  from assms have tr: "parse_and_upload_try e url_path body = (Inr r, t)"
    by (simp add: parse_and_upload_to_r2_success)
  from tr obtain video_data download_url t' where
    du: "download_and_upload e video_data (body_quality body) download_url = (Inr (rm_data r), t')"
    and t: "t = CrawlerCall (body_url body) # t'"
    by (rule parse_and_upload_try_success)
  from du obtain video_content video_id desc where
    br: "build_result e video_data video_id desc (object_key_for (now e) video_id) video_content
       (body_quality body) = Inr (rm_data r)"
    and t': "t' = [HttpGet download_url default_headers,
          PutObject (bucket_name e) (object_key_for (now e) video_id) video_content
            (ascii ''video/mp4'')]"
    by (rule download_and_upload_success)
  from br have id: "vi_video_id (res_video_info (rm_data r)) = video_id"
    by (rule build_result_storage)
  from br show "r2_path (res_r2_storage (rm_data r)) =
           object_key_for (now e) (vi_video_id (res_video_info (rm_data r)))"
    unfolding id by (rule build_result_storage)
  show "[k. PutObject b k c ct \<leftarrow> t] =
           [object_key_for (now e) (vi_video_id (res_video_info (rm_data r)))]"
    unfolding id t t' by simp
qed


lemma py_get_or_dict:
  "py_get_or (PDict urls) k1 k2 = Inr u \<Longrightarrow>
     first_present (url_at urls k1) (url_at urls k2) = (if py_truthy u then Some u else None)"
  by (auto simp: py_get_or_def py_get_def py_get_default_def bind_exn_def url_at_def
      first_present_def split: option.splits if_splits)

lemma py_get_or_dict_total: "\<exists>u. py_get_or (PDict urls) k1 k2 = Inr u"
  by (simp add: py_get_or_def py_get_def py_get_default_def bind_exn_def)

lemma select_download_url_dict:
  "\<exists>u. select_download_url (quality_name q) (PDict urls) = Inr u \<and>
     preferred_url q urls = (if py_truthy u then Some u else None)"
proof (cases q)
  case High
  obtain u where u: "py_get_or (PDict urls) (ascii ''nwm_video_url_HQ'') (ascii ''nwm_video_url'') = Inr u"
    using py_get_or_dict_total by blast
  with High py_get_or_dict[OF u] show ?thesis by (simp add: select_download_url_def)
next
  case Low
  obtain u where u: "py_get_or (PDict urls) (ascii ''nwm_video_url'') (ascii ''nwm_video_url_HQ'') = Inr u"
    using py_get_or_dict_total by blast
  with Low py_get_or_dict[OF u] show ?thesis by (simp add: select_download_url_def)
next
  case Watermark
  obtain u where u: "py_get_or (PDict urls) (ascii ''wm_video_url_HQ'') (ascii ''wm_video_url'') = Inr u"
    using py_get_or_dict_total by blast
  with Watermark py_get_or_dict[OF u] show ?thesis by (simp add: select_download_url_def)
qed

lemma resolve_download_url_video:
  assumes "py_truthy video_data"
    and "py_get video_data (ascii ''type'') = Inr (PStr (ascii ''video''))"
    and "py_get_default video_data (ascii ''video_data'') (PDict []) = Inr (PDict urls)"
  shows "resolve_download_url video_data (quality_name q) =
     (case preferred_url q urls of
        None \<Rightarrow> Inl (ValueError msg_no_download_url)
      | Some u \<Rightarrow> Inr u)"
proof -
  obtain u where u: "select_download_url (quality_name q) (PDict urls) = Inr u"
    and p: "preferred_url q urls = (if py_truthy u then Some u else None)"
    using select_download_url_dict by blast
  show ?thesis
    using assms u p by (auto simp: resolve_download_url_def bind_exn_def split: if_splits)
qed

lemma downloads_download_and_upload:
  "downloads (snd (download_and_upload e video_data quality u)) = [u]"
  by (auto simp: downloads_def download_and_upload_def download_video_def upload_to_r2_def
      Let_def split: sum.splits prod.splits)

lemma parse_and_upload_try_trace:
  "snd (parse_and_upload_try e p body) =
     (case crawler e (body_url body) of
        Inl x \<Rightarrow> [CrawlerCall (body_url body)]
      | Inr video_data \<Rightarrow>
          (case resolve_download_url video_data (body_quality body) of
             Inl x \<Rightarrow> [CrawlerCall (body_url body)]
           | Inr u \<Rightarrow> CrawlerCall (body_url body) #
                snd (download_and_upload e video_data (body_quality body) u)))"
  by (simp add: parse_and_upload_try_def split: sum.splits prod.splits)

lemma parse_and_upload_to_r2_trace:
  "snd (parse_and_upload_to_r2 e p body auth) =
     (if auth \<noteq> AUTH_TOKEN then [] else snd (parse_and_upload_try e p body))"
  by (simp add: parse_and_upload_to_r2_def split: sum.splits prod.splits exn.splits)

lemma parse_and_upload_stops_at_resolution:
  assumes "crawler e (body_url body) = Inr video_data"
    and "resolve_download_url video_data (body_quality body) = Inl (ValueError m)"
  shows "parse_and_upload_to_r2 e p body AUTH_TOKEN =
           (Inl (HTTPException 400 m), [CrawlerCall (body_url body)])"
  using assms by (simp add: parse_and_upload_to_r2_def parse_and_upload_try_def)







section \<open>Formatting, rounding and listing\<close>

lemma dec_nat_two_digits: "n < 100 \<Longrightarrow> zero_pad 2 (dec_nat n) = digits2 n"
proof (cases "n < 10")
  case True
  then show ?thesis by (simp add: dec_nat.simps[of n] zero_pad_def digits2_def)
next
  case False
  assume "n < 100"
  with False have "n div 10 < 10" by simp
  with False show ?thesis
    by (simp add: dec_nat.simps[of n] dec_nat.simps[of "n div 10"] zero_pad_def digits2_def)
qed

lemma dec_nat_four_digits:
  assumes "1000 \<le> n" and "n \<le> 9999"
  shows "dec_nat n = digits4 n"
proof -
  have a: "\<not> n < 10" "\<not> n div 10 < 10" "\<not> n div 100 < 10" "n div 1000 < 10"
    using assms by simp_all
  have b: "n div 10 div 10 = n div 100" "n div 100 div 10 = n div 1000"
    by (simp_all add: div_mult2_eq[symmetric])
  have "dec_nat (n div 1000) = [48 + n div 1000]"
    using a by (simp add: dec_nat.simps[of "n div 1000"])
  then have "dec_nat (n div 100) = [48 + n div 1000, 48 + n div 100 mod 10]"
    using a b by (simp add: dec_nat.simps[of "n div 100"])
  then have "dec_nat (n div 10) = [48 + n div 1000, 48 + n div 100 mod 10, 48 + n div 10 mod 10]"
    using a b by (simp add: dec_nat.simps[of "n div 10"])
  then show ?thesis
    using a by (simp add: dec_nat.simps[of n] digits4_def)
qed

lemma object_key_for_format:
  assumes "1000 \<le> dt_year d" "dt_year d \<le> 9999" "dt_month d \<le> 12" "dt_day d \<le> 31"
  shows "object_key_for d v = spec_storage_key (dt_year d) (dt_month d) (dt_day d) (py_str v)"
  using assms
  by (simp add: object_key_for_def strftime_Ymd_def spec_storage_key_def Let_def
      dec_nat_two_digits dec_nat_four_digits)

lemma py_round2_hundredths: "\<exists>k::int. py_round2 x = of_int k / 100"
  by (auto simp: py_round2_def Let_def)

lemma py_round2_near: "\<bar>py_round2 x - x\<bar> \<le> 1 / 200"
proof -
  define y where "y = x * 100"
  define d where "d = y - of_int \<lfloor>y\<rfloor>"
  have d: "0 \<le> d" "d < 1" unfolding d_def by linarith+
  have x: "x = (of_int \<lfloor>y\<rfloor> + d) / 100" unfolding d_def y_def by simp
  have r: "py_round2 x =
      of_int (if d < 1 / 2 then \<lfloor>y\<rfloor> else if 1 / 2 < d then \<lfloor>y\<rfloor> + 1
              else if even \<lfloor>y\<rfloor> then \<lfloor>y\<rfloor> else \<lfloor>y\<rfloor> + 1) / 100"
    by (simp only: py_round2_def Let_def y_def d_def)
  consider "d < 1 / 2" | "1 / 2 < d" | "d = 1 / 2" by linarith
  then show ?thesis
  proof cases
    case 1
    with r have "py_round2 x = of_int \<lfloor>y\<rfloor> / 100" by simp
    with d 1 show ?thesis unfolding x by (simp add: field_simps)
  next
    case 2
    with r have "py_round2 x = (of_int \<lfloor>y\<rfloor> + 1) / 100" by simp
    with d 2 show ?thesis unfolding x by (simp add: field_simps)
  next
    case 3
    with r have "py_round2 x = of_int \<lfloor>y\<rfloor> / 100 \<or> py_round2 x = (of_int \<lfloor>y\<rfloor> + 1) / 100"
      by simp
    with 3 show ?thesis unfolding x by (auto simp: field_simps)
  qed
qed



section \<open>The test doubles at work\<close>

lemmas handler_defs =
  parse_and_upload_to_r2_def parse_and_upload_try_def resolve_download_url_def
  select_download_url_def py_get_or_def py_get_def py_get_default_def bind_exn_def
  download_and_upload_def download_video_def upload_to_r2_def build_result_def
  build_video_info_def bucket_name_def

lemmas example_defs =
  example_env_def example_video_data_def example_urls_def example_body_def

lemma example_run:
  "parse_and_upload_to_r2 (example_env (example_video_data desc example_urls)) p
     (example_body (ascii ''high'')) AUTH_TOKEN =
   (Inr \<lparr>rm_code = 200, rm_router = p,
         rm_data =
           \<lparr>res_video_info =
              \<lparr>vi_video_id = PStr (ascii ''123''), vi_desc = PStr desc,
               vi_platform = PStr (ascii ''douyin''), vi_type = PStr (ascii ''video''),
               vi_create_time = PNone, vi_author = PNone, vi_statistics = PNone,
               vi_cover = PNone\<rparr>,
            res_r2_storage =
              \<lparr>r2_bucket = PStr (ascii ''douyin-videos''),
               r2_path = object_key_for example_now (PStr (ascii ''123'')),
               r2_file_size = 3, r2_file_size_mb = size_mb 3\<rparr>,
            res_quality = ascii ''high''\<rparr>\<rparr>,
    [CrawlerCall (ascii ''https://v.douyin.com/L4FJNR3/''),
     HttpGet (PStr (ascii ''https://cdn.example/std.mp4'')) default_headers,
     PutObject (PStr (ascii ''douyin-videos'')) (object_key_for example_now (PStr (ascii ''123'')))
       [1, 2, 3] (ascii ''video/mp4'')])"
  by (simp add: handler_defs example_defs Let_def numeral_3_eq_3)


section \<open>The claims\<close>




text \<open>
  C2. When the crawler has resolved a video whose link table is \<open>urls\<close>, the handler
  downloads exactly the link the preference chain of the requested quality gives (and
  nothing when the chain gives none): for \<open>high\<close> the no-watermark HQ link when present,
  else the no-watermark standard link; for \<open>low\<close> the other way round; for \<open>watermark\<close>
  the watermark HQ link, else the watermark standard link. In particular \<open>high\<close> with only
  the standard no-watermark link downloads that link.
\<close>

theorem download_url_follows_quality_chain:
  assumes "crawler e (body_url body) = Inr video_data"
    and "py_truthy video_data"
    and "py_get video_data (ascii ''type'') = Inr (PStr (ascii ''video''))"
    and "py_get_default video_data (ascii ''video_data'') (PDict []) = Inr (PDict urls)"
    and "body_quality body = quality_name q"
  shows "downloads (snd (parse_and_upload_to_r2 e p body AUTH_TOKEN)) =
           (case preferred_url q urls of None \<Rightarrow> [] | Some u \<Rightarrow> [u]) \<and>
         (q = High \<and> url_at urls (ascii ''nwm_video_url_HQ'') = None \<and>
          url_at urls (ascii ''nwm_video_url'') = Some u \<longrightarrow>
            downloads (snd (parse_and_upload_to_r2 e p body AUTH_TOKEN)) = [u])"
proof -
  have r: "resolve_download_url video_data (body_quality body) =
     (case preferred_url q urls of
        None \<Rightarrow> Inl (ValueError msg_no_download_url)
      | Some u \<Rightarrow> Inr u)"
    using assms(2-5) by (simp add: resolve_download_url_video)
  have d: "downloads (snd (parse_and_upload_to_r2 e p body AUTH_TOKEN)) =
           (case preferred_url q urls of None \<Rightarrow> [] | Some u \<Rightarrow> [u])"
  proof (cases "preferred_url q urls")
    case None
    with r assms(1) show ?thesis
      by (simp add: parse_and_upload_to_r2_trace parse_and_upload_try_trace downloads_def)
  next
    case (Some v)
    with r assms(1) downloads_download_and_upload[of e video_data "body_quality body" v]
    show ?thesis
      by (simp add: parse_and_upload_to_r2_trace parse_and_upload_try_trace downloads_def)
  qed
  then show ?thesis by (auto simp: first_present_def)
qed


theorem download_url_follows_quality_chain_witness:
  "downloads (snd (parse_and_upload_to_r2
      (example_env (example_video_data (ascii ''a/b'') example_urls))
      (ascii ''/r2/parse_and_upload'') (example_body (ascii ''high'')) AUTH_TOKEN)) =
   [PStr (ascii ''https://cdn.example/std.mp4'')]"
proof -
  let ?vd = "example_video_data (ascii ''a/b'') example_urls"
  let ?u = "PStr (ascii ''https://cdn.example/std.mp4'')"
  have 1: "crawler (example_env ?vd) (body_url (example_body (ascii ''high''))) = Inr ?vd"
    by (simp add: example_env_def)
  have 2: "py_truthy ?vd"
    by (simp add: example_video_data_def)
  have 3: "py_get ?vd (ascii ''type'') = Inr (PStr (ascii ''video''))"
    by (simp add: example_video_data_def py_get_def py_get_default_def)
  have 4: "py_get_default ?vd (ascii ''video_data'') (PDict []) = Inr (PDict example_urls)"
    by (simp add: example_video_data_def py_get_default_def)
  have 5: "body_quality (example_body (ascii ''high'')) = quality_name High"
    by (simp add: example_body_def)
  have 6: "url_at example_urls (ascii ''nwm_video_url_HQ'') = None"
    "url_at example_urls (ascii ''nwm_video_url'') = Some ?u"
    by (simp_all add: example_urls_def url_at_def)
  from download_url_follows_quality_chain
    [OF 1 2 3 4 5, of "ascii ''/r2/parse_and_upload''" ?u] 6
  show ?thesis by (simp add: first_present_def)
qed

text \<open>
  C3. With a valid token, the handler answers 400 and has called nothing but the
  crawler (no download, no storage write) when the crawler's answer is falsy (message
  "cannot parse the video information"), when the answer's type is not \<open>video\<close> (the
  message ends with the detected type), and when the preference chain of the requested
  quality gives no link (message "cannot get the video download link").
\<close>

theorem validation_failures_before_download:
  assumes "crawler e (body_url body) = Inr video_data"
  shows "(\<not> py_truthy video_data \<longrightarrow>
            parse_and_upload_to_r2 e p body AUTH_TOKEN =
              (Inl (HTTPException 400 msg_cannot_parse), [CrawlerCall (body_url body)])) \<and>
         (py_truthy video_data \<and> py_get video_data (ascii ''type'') = Inr ty \<and>
          ty \<noteq> PStr (ascii ''video'') \<longrightarrow>
            parse_and_upload_to_r2 e p body AUTH_TOKEN =
              (Inl (HTTPException 400 (msg_only_video @ py_str ty)),
               [CrawlerCall (body_url body)])) \<and>
         (py_truthy video_data \<and>
          py_get video_data (ascii ''type'') = Inr (PStr (ascii ''video'')) \<and>
          py_get_default video_data (ascii ''video_data'') (PDict []) = Inr (PDict urls) \<and>
          body_quality body = quality_name q \<and> preferred_url q urls = None \<longrightarrow>
            parse_and_upload_to_r2 e p body AUTH_TOKEN =
              (Inl (HTTPException 400 msg_no_download_url), [CrawlerCall (body_url body)]))"
proof (intro conjI impI)
  assume "\<not> py_truthy video_data"
  then have "resolve_download_url video_data (body_quality body) =
      Inl (ValueError msg_cannot_parse)"
    by (simp add: resolve_download_url_def)
  with assms show "parse_and_upload_to_r2 e p body AUTH_TOKEN =
      (Inl (HTTPException 400 msg_cannot_parse), [CrawlerCall (body_url body)])"
    by (rule parse_and_upload_stops_at_resolution)
next
  assume "py_truthy video_data \<and> py_get video_data (ascii ''type'') = Inr ty \<and>
          ty \<noteq> PStr (ascii ''video'')"
  then have "resolve_download_url video_data (body_quality body) =
      Inl (ValueError (msg_only_video @ py_str ty))"
    by (simp add: resolve_download_url_def bind_exn_def)
  with assms show "parse_and_upload_to_r2 e p body AUTH_TOKEN =
      (Inl (HTTPException 400 (msg_only_video @ py_str ty)), [CrawlerCall (body_url body)])"
    by (rule parse_and_upload_stops_at_resolution)
next
  assume "py_truthy video_data \<and>
          py_get video_data (ascii ''type'') = Inr (PStr (ascii ''video'')) \<and>
          py_get_default video_data (ascii ''video_data'') (PDict []) = Inr (PDict urls) \<and>
          body_quality body = quality_name q \<and> preferred_url q urls = None"
  then have "resolve_download_url video_data (body_quality body) =
      Inl (ValueError msg_no_download_url)"
    by (simp add: resolve_download_url_video)
  with assms show "parse_and_upload_to_r2 e p body AUTH_TOKEN =
      (Inl (HTTPException 400 msg_no_download_url), [CrawlerCall (body_url body)])"
    by (rule parse_and_upload_stops_at_resolution)
qed

theorem validation_failures_before_download_witness:
  "parse_and_upload_to_r2 (example_env PNone) (ascii ''/r2/parse_and_upload'')
     (example_body (ascii ''high'')) AUTH_TOKEN =
     (Inl (HTTPException 400 msg_cannot_parse),
      [CrawlerCall (body_url (example_body (ascii ''high'')))]) \<and>
   parse_and_upload_to_r2 (example_env (PDict [(ascii ''type'', PStr (ascii ''image''))]))
     (ascii ''/r2/parse_and_upload'') (example_body (ascii ''high'')) AUTH_TOKEN =
     (Inl (HTTPException 400 (msg_only_video @ ascii ''image'')),
      [CrawlerCall (body_url (example_body (ascii ''high'')))]) \<and>
   parse_and_upload_to_r2 (example_env (example_video_data (ascii ''a/b'') example_urls))
     (ascii ''/r2/parse_and_upload'') (example_body (ascii ''watermark'')) AUTH_TOKEN =
     (Inl (HTTPException 400 msg_no_download_url),
      [CrawlerCall (body_url (example_body (ascii ''watermark'')))])"
proof -
  let ?p = "ascii ''/r2/parse_and_upload''"
  let ?img = "PDict [(ascii ''type'', PStr (ascii ''image''))]"
  let ?vd = "example_video_data (ascii ''a/b'') example_urls"
  have a: "crawler (example_env PNone) (body_url (example_body (ascii ''high''))) = Inr PNone"
    by (simp add: example_env_def)
  have b: "crawler (example_env ?img) (body_url (example_body (ascii ''high''))) = Inr ?img"
    by (simp add: example_env_def)
  have b': "py_truthy ?img \<and> py_get ?img (ascii ''type'') = Inr (PStr (ascii ''image'')) \<and>
      PStr (ascii ''image'') \<noteq> PStr (ascii ''video'')"
    by (simp add: py_get_def py_get_default_def)
  have c: "crawler (example_env ?vd) (body_url (example_body (ascii ''watermark''))) = Inr ?vd"
    by (simp add: example_env_def)
  have c': "py_truthy ?vd \<and> py_get ?vd (ascii ''type'') = Inr (PStr (ascii ''video'')) \<and>
      py_get_default ?vd (ascii ''video_data'') (PDict []) = Inr (PDict example_urls) \<and>
      body_quality (example_body (ascii ''watermark'')) = quality_name Watermark \<and>
      preferred_url Watermark example_urls = None"
    by (simp add: example_video_data_def example_urls_def example_body_def py_get_def
        py_get_default_def url_at_def first_present_def)
  from validation_failures_before_download[OF a, of ?p]
       validation_failures_before_download[OF b, of ?p "PStr (ascii ''image'')"] b'
       validation_failures_before_download[OF c, of ?p _ example_urls Watermark] c'
  show ?thesis by simp
qed

text \<open>
  C4. After a successful upload, on a date with a four-digit year, the key in the
  response, which is also the key of the one object written, is
  \<open>douyin/{yyyy}/{mm}/{dd}/{video_id}.mp4\<close> with month and day padded to two digits, where
  \<open>video_id\<close> is the text of the resolved record's id (\<open>unknown\<close> when the record has
  none). For the id \<open>123\<close> on 2026-01-04 that key is \<open>douyin/2026/01/04/123.mp4\<close>.
\<close>

theorem storage_key_format:
  assumes "parse_and_upload_to_r2 e p body auth = (Inr r, t)"
    and "1000 \<le> dt_year (now e)" and "dt_year (now e) \<le> 9999"
    and "dt_month (now e) \<le> 12" and "dt_day (now e) \<le> 31"
  shows "(\<exists>video_data. crawler e (body_url body) = Inr video_data \<and>
            py_get_default video_data (ascii ''video_id'') (PStr (ascii ''unknown'')) =
              Inr (vi_video_id (res_video_info (rm_data r)))) \<and>
         r2_path (res_r2_storage (rm_data r)) =
           spec_storage_key (dt_year (now e)) (dt_month (now e)) (dt_day (now e))
             (py_str (vi_video_id (res_video_info (rm_data r)))) \<and>
         put_keys t = [r2_path (res_r2_storage (rm_data r))] \<and>
         spec_storage_key 2026 1 4 (ascii ''123'') = ascii ''douyin/2026/01/04/123.mp4''"
proof -
  from assms(1) have tr: "parse_and_upload_try e p body = (Inr r, t)"
    by (simp add: parse_and_upload_to_r2_success)
  from tr obtain video_data download_url t' where
    cr: "crawler e (body_url body) = Inr video_data"
    and du: "download_and_upload e video_data (body_quality body) download_url = (Inr (rm_data r), t')"
    by (rule parse_and_upload_try_success)
  from du obtain video_content video_id desc where
    vid: "py_get_default video_data (ascii ''video_id'') (PStr (ascii ''unknown'')) = Inr video_id"
    and br: "build_result e video_data video_id desc (object_key_for (now e) video_id) video_content
       (body_quality body) = Inr (rm_data r)"
    by (rule download_and_upload_success)
  from br have id: "vi_video_id (res_video_info (rm_data r)) = video_id"
    by (rule build_result_storage)
  have k: "r2_path (res_r2_storage (rm_data r)) =
      object_key_for (now e) (vi_video_id (res_video_info (rm_data r)))"
    using assms(1) by (rule parse_and_upload_key_from_id(1))
  have pk: "put_keys t = [object_key_for (now e) (vi_video_id (res_video_info (rm_data r)))]"
    unfolding put_keys_def using assms(1) by (rule parse_and_upload_key_from_id(2))
  have f: "object_key_for (now e) (vi_video_id (res_video_info (rm_data r))) =
      spec_storage_key (dt_year (now e)) (dt_month (now e)) (dt_day (now e))
             (py_str (vi_video_id (res_video_info (rm_data r))))"
    using assms(2-5) by (rule object_key_for_format)
  have ex: "spec_storage_key 2026 1 4 (ascii ''123'') = ascii ''douyin/2026/01/04/123.mp4''"
    by (simp add: spec_storage_key_def digits2_def digits4_def ascii_def)
  from cr vid id k pk f ex show ?thesis by simp
qed

theorem storage_key_format_witness:
  "r2_path (res_r2_storage (rm_data (projr (fst
     (parse_and_upload_to_r2 (example_env (example_video_data (ascii ''a/b'') example_urls))
        (ascii ''/r2/parse_and_upload'') (example_body (ascii ''high'')) AUTH_TOKEN))))) =
     ascii ''douyin/2026/01/04/123.mp4'' \<and>
   put_keys (snd
     (parse_and_upload_to_r2 (example_env (example_video_data (ascii ''a/b'') example_urls))
        (ascii ''/r2/parse_and_upload'') (example_body (ascii ''high'')) AUTH_TOKEN)) =
     [ascii ''douyin/2026/01/04/123.mp4'']"
proof -
  let ?e = "example_env (example_video_data (ascii ''a/b'') example_urls)"
  let ?run = "parse_and_upload_to_r2 ?e (ascii ''/r2/parse_and_upload'')
     (example_body (ascii ''high'')) AUTH_TOKEN"
  have run: "?run = (Inr (projr (fst ?run)), snd ?run)"
    by (simp add: example_run)
  have d: "1000 \<le> dt_year (now ?e)" "dt_year (now ?e) \<le> 9999"
    "dt_month (now ?e) \<le> 12" "dt_day (now ?e) \<le> 31"
    by (simp_all add: example_env_def example_now_def)
  have v: "dt_year (now ?e) = 2026" "dt_month (now ?e) = 1" "dt_day (now ?e) = 4"
    by (simp_all add: example_env_def example_now_def)
  have i: "py_str (vi_video_id (res_video_info (rm_data (projr (fst ?run))))) = ascii ''123''"
    by (simp add: example_run)
  from storage_key_format[OF run d] show ?thesis
    unfolding v i by simp
qed



text \<open>
  C6. A successful run has called the crawler, downloaded one link and written one
  object, in this order; the object written is the content the download returned, the
  reported \<open>file_size\<close> is the number of its bytes, and \<open>file_size_mb\<close> is that number
  divided by 1024 twice and rounded to two decimal places: a whole number of hundredths
  within half a hundredth of the quotient.
\<close>

theorem file_size_is_downloaded_length:
  assumes "parse_and_upload_to_r2 e p body auth = (Inr r, t)"
  shows "\<exists>url content bucket.
     t = [CrawlerCall (body_url body), HttpGet url default_headers,
          PutObject bucket (r2_path (res_r2_storage (rm_data r))) content (ascii ''video/mp4'')] \<and>
     http_get e url default_headers = Inr content \<and>
     r2_file_size (res_r2_storage (rm_data r)) = length content \<and>
     r2_file_size_mb (res_r2_storage (rm_data r)) =
       py_round2 (real (length content) / 1024 / 1024) \<and>
     (\<exists>k::int. r2_file_size_mb (res_r2_storage (rm_data r)) = of_int k / 100) \<and>
     \<bar>r2_file_size_mb (res_r2_storage (rm_data r)) - real (length content) / 1024 / 1024\<bar>
       \<le> 1 / 200"
proof -
  from assms have tr: "parse_and_upload_try e p body = (Inr r, t)"
    by (simp add: parse_and_upload_to_r2_success)
  from tr obtain video_data download_url t' where
    du: "download_and_upload e video_data (body_quality body) download_url = (Inr (rm_data r), t')"
    and t: "t = CrawlerCall (body_url body) # t'"
    by (rule parse_and_upload_try_success)
  from du obtain video_content video_id desc where
    get: "http_get e download_url default_headers = Inr video_content"
    and br: "build_result e video_data video_id desc (object_key_for (now e) video_id) video_content
       (body_quality body) = Inr (rm_data r)"
    and t': "t' = [HttpGet download_url default_headers,
          PutObject (bucket_name e) (object_key_for (now e) video_id) video_content
            (ascii ''video/mp4'')]"
    by (rule download_and_upload_success)
  have path: "r2_path (res_r2_storage (rm_data r)) = object_key_for (now e) video_id"
    using br by (rule build_result_storage)
  have size: "r2_file_size (res_r2_storage (rm_data r)) = length video_content"
    using br by (rule build_result_storage)
  have mb: "r2_file_size_mb (res_r2_storage (rm_data r)) =
      py_round2 (real (length video_content) / 1024 / 1024)"
    using build_result_storage(3)[OF br] by (simp add: size_mb_def)
  have hundredths: "\<exists>k::int. r2_file_size_mb (res_r2_storage (rm_data r)) = of_int k / 100"
    unfolding mb by (rule py_round2_hundredths)
  have near: "\<bar>r2_file_size_mb (res_r2_storage (rm_data r)) -
      real (length video_content) / 1024 / 1024\<bar> \<le> 1 / 200"
    unfolding mb by (rule py_round2_near)
  show ?thesis
    apply (rule exI[of _ download_url])
    apply (rule exI[of _ video_content])
    apply (rule exI[of _ "bucket_name e"])
    using t t' get path size mb hundredths near
    apply simp
    done
qed

theorem file_size_is_downloaded_length_witness:
  "http_get (example_env (example_video_data (ascii ''a/b'') example_urls))
     (PStr (ascii ''https://cdn.example/std.mp4'')) default_headers = Inr [1, 2, 3] \<and>
   r2_file_size (res_r2_storage (rm_data (projr (fst
     (parse_and_upload_to_r2 (example_env (example_video_data (ascii ''a/b'') example_urls))
        (ascii ''/r2/parse_and_upload'') (example_body (ascii ''high'')) AUTH_TOKEN))))) = 3 \<and>
   r2_file_size_mb (res_r2_storage (rm_data (projr (fst
     (parse_and_upload_to_r2 (example_env (example_video_data (ascii ''a/b'') example_urls))
        (ascii ''/r2/parse_and_upload'') (example_body (ascii ''high'')) AUTH_TOKEN))))) = 0"
proof -
  let ?e = "example_env (example_video_data (ascii ''a/b'') example_urls)"
  let ?run = "parse_and_upload_to_r2 ?e (ascii ''/r2/parse_and_upload'')
     (example_body (ascii ''high'')) AUTH_TOKEN"
  have run: "?run = (Inr (projr (fst ?run)), snd ?run)"
    by (simp add: example_run)
  have tr: "snd ?run = [CrawlerCall (ascii ''https://v.douyin.com/L4FJNR3/''),
     HttpGet (PStr (ascii ''https://cdn.example/std.mp4'')) default_headers,
     PutObject (PStr (ascii ''douyin-videos'')) (object_key_for example_now (PStr (ascii ''123'')))
       [1, 2, 3] (ascii ''video/mp4'')]"
    by (simp add: example_run)
  from file_size_is_downloaded_length[OF run] obtain url content bucket where
    t: "snd ?run = [CrawlerCall (body_url (example_body (ascii ''high''))),
          HttpGet url default_headers,
          PutObject bucket (r2_path (res_r2_storage (rm_data (projr (fst ?run))))) content
            (ascii ''video/mp4'')]"
    and g: "http_get ?e url default_headers = Inr content"
    and s: "r2_file_size (res_r2_storage (rm_data (projr (fst ?run)))) = length content"
    and m: "r2_file_size_mb (res_r2_storage (rm_data (projr (fst ?run)))) =
       py_round2 (real (length content) / 1024 / 1024)"
    by blast
  from t tr have c: "content = [1, 2, 3]" and u: "url = PStr (ascii ''https://cdn.example/std.mp4'')"
    by simp_all
  from g s m show ?thesis unfolding c u by (simp add: py_round2_def)
qed



text \<open>
  C8 (as amended). For every description and maximum length, \<open>sanitize_filename\<close> returns
  a string with none of the unsafe characters, without two consecutive underscores, and
  not empty. For a maximum of at least 0 the result is the fallback \<open>video\<close> or has at
  most the maximum length, so it has at most the maximum length when the maximum is at
  least 5. The upload path does not use the helper: two successful uploads on the same
  date of videos with the same id store under the same key, whatever the descriptions.
\<close>

theorem sanitize_filename_safe_and_unused:
  "(\<forall>c \<in> set unsafe_codes. c \<notin> set (sanitize_filename desc max_length)) \<and>
   \<not> sublist (ascii ''__'') (sanitize_filename desc max_length) \<and>
   sanitize_filename desc max_length \<noteq> [] \<and>
   (0 \<le> max_length \<longrightarrow>
      sanitize_filename desc max_length = ascii ''video'' \<or>
      int (length (sanitize_filename desc max_length)) \<le> max_length) \<and>
   (5 \<le> max_length \<longrightarrow> int (length (sanitize_filename desc max_length)) \<le> max_length) \<and>
   (parse_and_upload_to_r2 e1 p1 b1 a1 = (Inr r1, t1) \<and>
    parse_and_upload_to_r2 e2 p2 b2 a2 = (Inr r2, t2) \<and>
    now e1 = now e2 \<and>
    vi_video_id (res_video_info (rm_data r1)) = vi_video_id (res_video_info (rm_data r2)) \<longrightarrow>
      r2_path (res_r2_storage (rm_data r1)) = r2_path (res_r2_storage (rm_data r2)) \<and>
      put_keys t1 = put_keys t2)"
proof (intro conjI impI ballI)
  fix c assume "c \<in> set unsafe_codes"
  then show "c \<notin> set (sanitize_filename desc max_length)"
    by (rule sanitize_filename_no_unsafe)
next
  show "\<not> sublist (ascii ''__'') (sanitize_filename desc max_length)"
    by (rule sanitize_filename_no_double_underscore)
next
  show "sanitize_filename desc max_length \<noteq> []"
    by (rule sanitize_filename_nonempty)
next
  assume "0 \<le> max_length"
  then show "sanitize_filename desc max_length = ascii ''video'' \<or>
      int (length (sanitize_filename desc max_length)) \<le> max_length"
    by (rule sanitize_filename_length)
next
  assume "5 \<le> max_length"
  with sanitize_filename_length[of max_length desc]
  show "int (length (sanitize_filename desc max_length)) \<le> max_length"
    by (auto simp: ascii_def)
next
  assume h: "parse_and_upload_to_r2 e1 p1 b1 a1 = (Inr r1, t1) \<and>
    parse_and_upload_to_r2 e2 p2 b2 a2 = (Inr r2, t2) \<and>
    now e1 = now e2 \<and>
    vi_video_id (res_video_info (rm_data r1)) = vi_video_id (res_video_info (rm_data r2))"
  then have "r2_path (res_r2_storage (rm_data r1)) =
      object_key_for (now e1) (vi_video_id (res_video_info (rm_data r1)))"
    and "r2_path (res_r2_storage (rm_data r2)) =
      object_key_for (now e2) (vi_video_id (res_video_info (rm_data r2)))"
    by (blast dest: parse_and_upload_key_from_id(1))+
  with h show "r2_path (res_r2_storage (rm_data r1)) = r2_path (res_r2_storage (rm_data r2))"
    by simp
next
  assume h: "parse_and_upload_to_r2 e1 p1 b1 a1 = (Inr r1, t1) \<and>
    parse_and_upload_to_r2 e2 p2 b2 a2 = (Inr r2, t2) \<and>
    now e1 = now e2 \<and>
    vi_video_id (res_video_info (rm_data r1)) = vi_video_id (res_video_info (rm_data r2))"
  then have "put_keys t1 = [object_key_for (now e1) (vi_video_id (res_video_info (rm_data r1)))]"
    and "put_keys t2 = [object_key_for (now e2) (vi_video_id (res_video_info (rm_data r2)))]"
    unfolding put_keys_def by (blast dest: parse_and_upload_key_from_id(2))+
  with h show "put_keys t1 = put_keys t2"
    by simp
qed

theorem sanitize_filename_safe_and_unused_witness:
  "47 \<notin> set (sanitize_filename (ascii ''a/b'') 50) \<and>
   \<not> sublist (ascii ''__'') (sanitize_filename (ascii ''a/b'') 50) \<and>
   sanitize_filename (ascii ''a/b'') 50 \<noteq> [] \<and>
   int (length (sanitize_filename (ascii ''a/b'') 50)) \<le> 50 \<and>
   r2_path (res_r2_storage (rm_data (projr (fst
     (parse_and_upload_to_r2 (example_env (example_video_data (ascii ''a/b'') example_urls))
        (ascii ''/r2/parse_and_upload'') (example_body (ascii ''high'')) AUTH_TOKEN))))) =
   r2_path (res_r2_storage (rm_data (projr (fst
     (parse_and_upload_to_r2 (example_env (example_video_data (ascii ''c d'') example_urls))
        (ascii ''/r2/parse_and_upload'') (example_body (ascii ''high'')) AUTH_TOKEN))))) \<and>
   put_keys (snd
     (parse_and_upload_to_r2 (example_env (example_video_data (ascii ''a/b'') example_urls))
        (ascii ''/r2/parse_and_upload'') (example_body (ascii ''high'')) AUTH_TOKEN)) =
   put_keys (snd
     (parse_and_upload_to_r2 (example_env (example_video_data (ascii ''c d'') example_urls))
        (ascii ''/r2/parse_and_upload'') (example_body (ascii ''high'')) AUTH_TOKEN))"
proof -
  let ?run = "\<lambda>d. parse_and_upload_to_r2 (example_env (example_video_data d example_urls))
        (ascii ''/r2/parse_and_upload'') (example_body (ascii ''high'')) AUTH_TOKEN"
  have unsafe: "(47::nat) \<in> set unsafe_codes" by (simp add: unsafe_codes_def)
  have runs: "?run (ascii ''a/b'') = (Inr (projr (fst (?run (ascii ''a/b'')))), snd (?run (ascii ''a/b'')))"
    "?run (ascii ''c d'') = (Inr (projr (fst (?run (ascii ''c d'')))), snd (?run (ascii ''c d'')))"
    by (simp_all add: example_run)
  have clock: "now (example_env (example_video_data (ascii ''a/b'') example_urls)) =
      now (example_env (example_video_data (ascii ''c d'') example_urls))"
    by (simp add: example_env_def)
  have same: "vi_video_id (res_video_info (rm_data (projr (fst (?run (ascii ''a/b'')))))) =
     vi_video_id (res_video_info (rm_data (projr (fst (?run (ascii ''c d''))))))"
    by (simp add: example_run)
  from sanitize_filename_safe_and_unused
    [of "ascii ''a/b''" 50
        "example_env (example_video_data (ascii ''a/b'') example_urls)"
        "ascii ''/r2/parse_and_upload''" "example_body (ascii ''high'')" AUTH_TOKEN
        "projr (fst (?run (ascii ''a/b'')))" "snd (?run (ascii ''a/b''))"
        "example_env (example_video_data (ascii ''c d'') example_urls)"
        "ascii ''/r2/parse_and_upload''" "example_body (ascii ''high'')" AUTH_TOKEN
        "projr (fst (?run (ascii ''c d'')))" "snd (?run (ascii ''c d''))"]
    unsafe runs clock same
  show ?thesis by simp
qed

text \<open>
  C8 as stated fails: for an empty description and a maximum of 3 the result is the
  fallback \<open>video\<close>, five characters long.
\<close>

theorem sanitize_filename_length_counterexample:
  "\<not> (\<forall>desc max_length. int (length (sanitize_filename desc max_length)) \<le> max_length)"
proof
  assume "\<forall>desc max_length. int (length (sanitize_filename desc max_length)) \<le> max_length"
  then have "int (length (sanitize_filename [] 3)) \<le> 3" by blast
  then show False by (simp add: sanitize_filename_def ascii_def)
qed




text \<open>
  C10. \<open>GET /r2/list_videos\<close> and \<open>GET /r2/get_download_url\<close> do not look at the \<open>Auth\<close>
  header: the answer and the calls are the same whatever the header is, no failure has
  status 401, and the one call made is the storage call (for \<open>get_download_url\<close>, once
  the request carries the required \<open>path\<close>).
\<close>

theorem listing_and_presigning_skip_authentication:
  "get_list_videos e (rq\<lparr>lq_auth := a\<rparr>) = get_list_videos e rq \<and>
   failure_status (fst (get_list_videos e rq)) \<noteq> Some 401 \<and>
   snd (get_list_videos e rq) =
     [ListObjectsV2 (bucket_name e) (requested_prefix rq) (requested_max_keys rq)] \<and>
   get_get_download_url e (dq\<lparr>dq_auth := a\<rparr>) = get_get_download_url e dq \<and>
   failure_status (fst (get_get_download_url e dq)) \<noteq> Some 401 \<and>
   (dq_path dq = Some path \<longrightarrow>
      snd (get_get_download_url e dq) =
        [PresignGetObject (bucket_name e) path
           (case dq_expires_in dq of None \<Rightarrow> 3600 | Some x \<Rightarrow> x)])"
proof (intro conjI impI)
  show "get_list_videos e (rq\<lparr>lq_auth := a\<rparr>) = get_list_videos e rq"
    by (simp add: get_list_videos_def)
  show "failure_status (fst (get_list_videos e rq)) \<noteq> Some 401"
    by (simp add: failure_status_def get_list_videos_def list_r2_videos_def Let_def
        split: sum.splits)
  show "snd (get_list_videos e rq) =
     [ListObjectsV2 (bucket_name e) (requested_prefix rq) (requested_max_keys rq)]"
    by (simp add: get_list_videos_def list_r2_videos_def requested_prefix_def
        requested_max_keys_def Let_def split: sum.splits)
  show "get_get_download_url e (dq\<lparr>dq_auth := a\<rparr>) = get_get_download_url e dq"
    by (simp add: get_get_download_url_def split: option.splits)
  show "failure_status (fst (get_get_download_url e dq)) \<noteq> Some 401"
    by (simp add: failure_status_def get_get_download_url_def get_video_download_url_def
        generate_presigned_url_def split: sum.splits option.splits)
next
  assume "dq_path dq = Some path"
  then show "snd (get_get_download_url e dq) =
        [PresignGetObject (bucket_name e) path
           (case dq_expires_in dq of None \<Rightarrow> 3600 | Some x \<Rightarrow> x)]"
    by (simp add: get_get_download_url_def get_video_download_url_def
        generate_presigned_url_def split: sum.splits)
qed

theorem listing_and_presigning_skip_authentication_witness:
  "get_list_videos (example_env PNone) (list_request (Some (ascii ''wrong'')) None) =
     get_list_videos (example_env PNone) (list_request None None) \<and>
   get_get_download_url (example_env PNone) (download_url_request (Some (ascii ''wrong''))) =
     get_get_download_url (example_env PNone) (download_url_request None) \<and>
   snd (get_get_download_url (example_env PNone) (download_url_request None)) =
     [PresignGetObject (PStr (ascii ''douyin-videos'')) (ascii ''douyin/2026/01/04/123.mp4'') 3600]"
proof -
  have p: "dq_path (download_url_request None) = Some (ascii ''douyin/2026/01/04/123.mp4'')"
    by (simp add: download_url_request_def)
  have a: "(list_request None None)\<lparr>lq_auth := Some (ascii ''wrong'')\<rparr> =
      list_request (Some (ascii ''wrong'')) None"
    "(download_url_request None)\<lparr>dq_auth := Some (ascii ''wrong'')\<rparr> =
      download_url_request (Some (ascii ''wrong''))"
    by (simp_all add: list_request_def download_url_request_def)
  have b: "bucket_name (example_env PNone) = PStr (ascii ''douyin-videos'')"
    "dq_expires_in (download_url_request None) = None"
    by (simp_all add: bucket_name_def example_env_def download_url_request_def)
  from listing_and_presigning_skip_authentication
    [where e = "example_env PNone" and rq = "list_request None None"
       and a = "Some (ascii ''wrong'')" and dq = "download_url_request None"
       and path = "ascii ''douyin/2026/01/04/123.mp4''"] p a b
  show ?thesis by simp
qed

end
